theory Spec2Isabelle
  imports Main
begin

section \<open>Values, records and errors\<close>

text \<open>
  Field values as the store sees them: numbers with an integer value, and strings.
  Numbers are taken up to Python's \<open>==\<close>: \<open>IntV n\<close> stands for any number equal to
  \<open>n\<close>, whether an \<open>int\<close>, a float or a numpy scalar. \<open>NaNV\<close> is the missing-value
  marker the table engine fills in where a row carries no value for a column.
\<close>

datatype val = IntV int | StrV string | NaNV

text \<open>
  A value read out of a row is either a plain Python value or a numpy scalar
  (\<open>np.generic\<close>) wrapping one.
\<close>

datatype cell = Py val | NpGeneric val

text \<open>
  A Python object: the name of its class, the names of the proper superclasses of that
  class, and its \<open>__dict__\<close> in insertion order.
\<close>

record pyobj =
  obj_class :: string
  obj_bases :: "string list"
  obj_dict :: "(string \<times> val) list"

text \<open>
  The record class: its name, the names of its proper superclasses, and
  \<open>fields(record_class)\<close>, name and declared type.
\<close>

record 'ty rclass =
  rc_name :: string
  rc_bases :: "string list"
  rc_fields :: "(string \<times> 'ty) list"

text \<open>A key of the key indexer: one label value, or a tuple of them.\<close>

datatype key = KScalar val | KTuple "val list"

text \<open>The \<open>index\<close> argument: \<open>None\<close>, one field name, or a list of field names.\<close>

datatype index = NoIndex | IndexStr string | IndexList "string list"

datatype msg =
    AllDataMustBeOfType string pyobj nat
  | DataMustContainRecord
  | KeyMustEqual key val
  | IndexHasDuplicateKeys
  | MustPassNonZeroLevels
  | LengthMismatch
  | DtypeHasNoUnit

datatype py_error = ValueError msg | TypeError | KeyError | IndexError | AttributeError

text \<open>
  \<open>isinstance(dc, record_class)\<close>: the class of the object is the record class or one
  of its subclasses.
\<close>

definition isinstance :: "pyobj \<Rightarrow> 'ty rclass \<Rightarrow> bool" where
  "isinstance dc record_class \<longleftrightarrow>
     rc_name record_class = obj_class dc \<or> rc_name record_class \<in> set (obj_bases dc)"


text \<open>Python's \<open>==\<close> on values: NaN is equal to nothing, itself included.\<close>

fun py_eq :: "val \<Rightarrow> val \<Rightarrow> bool" where
  "py_eq NaNV _ = False"
| "py_eq _ NaNV = False"
| "py_eq a b = (a = b)"

text \<open>
  \<open>key != index_value_in_record\<close>, the right-hand side being one field value: a tuple
  is never equal to it.
\<close>

fun key_ne :: "key \<Rightarrow> val \<Rightarrow> bool" where
  "key_ne (KScalar k) v = (\<not> py_eq k v)"
| "key_ne (KTuple ks) v = True"

section \<open>The table engine\<close>

datatype dtype = Int64 | Float64 | Bool | Object | OtherDtype string

text \<open>
  A table: the columns in order with their storage type, one label per row (a list of
  values, one per index level), and the rows, each a list of values in column order.
  The storage type recorded for a column is the one it was created with; a change of
  storage type by a later write is not recorded.
\<close>

record table =
  df_columns :: "(string \<times> dtype) list"
  df_index :: "val list list"
  df_rows :: "val list list"

definition colnames :: "table \<Rightarrow> string list" where
  "colnames t = map fst (df_columns t)"

definition DataFrame_empty :: table where
  "DataFrame_empty = \<lparr>df_columns = [], df_index = [], df_rows = []\<rparr>"

text \<open>Position of a column name, if the table has it.\<close>

fun find_col :: "string list \<Rightarrow> string \<Rightarrow> nat option" where
  "find_col [] n = None"
| "find_col (c # cs) n = (if c = n then Some 0 else map_option Suc (find_col cs n))"

text \<open>
  \<open>df[name] = values\<close>: an existing column is replaced in place, a new one is added
  last.
\<close>

definition set_column :: "table \<Rightarrow> string \<Rightarrow> dtype \<Rightarrow> val list \<Rightarrow> table" where
  "set_column t n d vs =
     (case find_col (colnames t) n of
        Some i \<Rightarrow> t\<lparr>df_columns := (df_columns t)[i := (n, d)],
                    df_rows := map (\<lambda>(r, v). r[i := v]) (zip (df_rows t) vs)\<rparr>
      | None \<Rightarrow> t\<lparr>df_columns := df_columns t @ [(n, d)],
                  df_rows := map (\<lambda>(r, v). r @ [v]) (zip (df_rows t) vs)\<rparr>)"

text \<open>The storage type the engine infers for a list of values.\<close>

definition infer_dtype :: "val list \<Rightarrow> dtype" where
  "infer_dtype vs = (if vs \<noteq> [] \<and> list_all (\<lambda>v. case v of IntV _ \<Rightarrow> True | _ \<Rightarrow> False) vs
                     then Int64 else Object)"

text \<open>\<open>df[name] = values\<close> with a list: its length must be the number of rows.\<close>

definition df_setitem :: "table \<Rightarrow> string \<Rightarrow> val list \<Rightarrow> py_error + table" where
  "df_setitem t n vs =
     (if length vs \<noteq> length (df_rows t) then Inl (ValueError LengthMismatch)
      else Inr (set_column t n (infer_dtype vs) vs))"

text \<open>\<open>df[name]\<close>: the whole column.\<close>

definition df_getitem :: "table \<Rightarrow> string \<Rightarrow> py_error + val list" where
  "df_getitem t n =
     (case find_col (colnames t) n of
        None \<Rightarrow> Inl KeyError
      | Some i \<Rightarrow> Inr (map (\<lambda>r. r ! i) (df_rows t)))"

text \<open>
  A series built from a dictionary, aligned to a list of column names: the value under
  each name, NaN where the dictionary has none; entries under other names are dropped.
\<close>

definition align :: "string list \<Rightarrow> (string \<times> val) list \<Rightarrow> val list" where
  "align cs d = map (\<lambda>c. case map_of d c of Some v \<Rightarrow> v | None \<Rightarrow> NaNV) cs"

text \<open>Resolution of a position: negative positions count from the end.\<close>

definition resolve_pos :: "nat \<Rightarrow> int \<Rightarrow> nat option" where
  "resolve_pos n k =
     (let j = (if k < 0 then int n + k else k)
      in if 0 \<le> j \<and> j < int n then Some (nat j) else None)"


text \<open>
  \<open>df.iloc[key] = series\<close>: \<open>iloc\<close> cannot enlarge, so the position must exist; the
  values of the series are written by position, not by name, and there must be as many
  as the table has columns. The result is the resolved position and the table.
\<close>

definition iloc_set :: "table \<Rightarrow> int \<Rightarrow> val list \<Rightarrow> py_error + nat \<times> table" where
  "iloc_set t k row =
     (case resolve_pos (length (df_rows t)) k of
        None \<Rightarrow> Inl IndexError
      | Some i \<Rightarrow>
          if length row \<noteq> length (df_columns t) then Inl (ValueError LengthMismatch)
          else Inr (i, t\<lparr>df_rows := (df_rows t)[i := row]\<rparr>))"

text \<open>
  \<open>df.loc[key] = series\<close>, the key given as a label: every row carrying the label is
  overwritten; when no row carries it, a row with that label is added last.
\<close>

definition loc_set :: "table \<Rightarrow> val list \<Rightarrow> (string \<times> val) list \<Rightarrow> table" where
  "loc_set t k d =
     (let r = align (colnames t) d in
      if k \<in> set (df_index t)
      then t\<lparr>df_rows := map (\<lambda>(l, old). if l = k then r else old)
                             (zip (df_index t) (df_rows t))\<rparr>
      else t\<lparr>df_index := df_index t @ [k], df_rows := df_rows t @ [r]\<rparr>)"



text \<open>
  \<open>df.append(dicts)\<close>: keys the table has no column for become new columns, in order
  of first appearance; each dictionary becomes a row, labelled by its position in the
  list. A column of the result holds the values the table had in it followed by the
  dictionaries' values under its name, NaN where there is none, as the engine converts
  them: the conversion is the parameter \<open>cast\<close>, from the storage type of the column
  (none for a new column) and the values to the storage type and the values of the
  result.
\<close>

definition new_keys :: "string list \<Rightarrow> (string \<times> val) list list \<Rightarrow> string list" where
  "new_keys cs ds = filter (\<lambda>k. k \<notin> set cs) (rev (remdups (rev (concat (map (map fst) ds)))))"

definition column_values :: "table \<Rightarrow> (string \<times> val) list list \<Rightarrow> string \<Rightarrow> val list" where
  "column_values t ds c =
     (case find_col (colnames t) c of
        Some j \<Rightarrow> map (\<lambda>r. r ! j) (df_rows t)
      | None \<Rightarrow> replicate (length (df_rows t)) NaNV)
     @ map (\<lambda>d. case map_of d c of Some v \<Rightarrow> v | None \<Rightarrow> NaNV) ds"

definition df_append ::
  "(dtype option \<Rightarrow> val list \<Rightarrow> dtype \<times> val list) \<Rightarrow> table \<Rightarrow> (string \<times> val) list list \<Rightarrow> table" where
  "df_append cast t ds =
     (let cols = map (\<lambda>(c, d). (c, cast (Some d) (column_values t ds c))) (df_columns t)
                 @ map (\<lambda>c. (c, cast None (column_values t ds c))) (new_keys (colnames t) ds)
      in \<lparr>df_columns = map (\<lambda>(c, d, vs). (c, d)) cols,
          df_index = df_index t @ map (\<lambda>i. [IntV (int i)]) [0 ..< length ds],
          df_rows = map (\<lambda>i. map (\<lambda>(c, d, vs). if i < length vs then vs ! i else NaNV) cols)
                        [0 ..< length (df_rows t) + length ds]\<rparr>)"

text \<open>\<open>df.reset_index(drop=True)\<close>: the labels become the positions.\<close>

definition reset_index :: "table \<Rightarrow> table" where
  "reset_index t = t\<lparr>df_index := map (\<lambda>i. [IntV (int i)]) [0 ..< length (df_rows t)]\<rparr>"

fun index_keys :: "index \<Rightarrow> string list" where
  "index_keys NoIndex = []"
| "index_keys (IndexStr s) = [s]"
| "index_keys (IndexList l) = l"

text \<open>The values of a row under the given column names, in that order.\<close>

definition row_label :: "string list \<Rightarrow> string list \<Rightarrow> val list \<Rightarrow> val list" where
  "row_label cs ks r = map (\<lambda>k. case find_col cs k of Some i \<Rightarrow> r ! i | None \<Rightarrow> NaNV) ks"

text \<open>
  \<open>df.set_index(keys, drop=False, verify_integrity=True)\<close>: a key that is no column
  is a KeyError; the labels of the rows are their values under the keys, and the columns
  stay; labels that are not unique are an error.
\<close>

definition set_index :: "table \<Rightarrow> string list \<Rightarrow> py_error + table" where
  "set_index t ks =
     (if \<not> set ks \<subseteq> set (colnames t) then Inl KeyError
      else if ks = [] then Inl (ValueError MustPassNonZeroLevels)
      else let labels = map (row_label (colnames t) ks) (df_rows t)
           in if \<not> distinct labels then Inl (ValueError IndexHasDuplicateKeys)
              else Inr (t\<lparr>df_index := labels\<rparr>))"

text \<open>\<open>df.head(n)\<close>: the first \<open>n\<close> rows; all but the last \<open>-n\<close> when \<open>n\<close> is negative.\<close>

definition df_head :: "table \<Rightarrow> int \<Rightarrow> table" where
  "df_head t n =
     (let m = (if n < 0 then nat (int (length (df_rows t)) + n) else nat n)
      in t\<lparr>df_index := take m (df_index t), df_rows := take m (df_rows t)\<rparr>)"

section \<open>The store\<close>

text \<open>
  The column accessor holds the store it was made for and the set of column names taken
  at that moment.
\<close>

record wrapper =
  w_dcf :: nat
  w_cols :: "string set"

text \<open>A store object: its attributes. \<open>dcf_df\<close> refers to a table object of the heap.\<close>

record 'ty dcf =
  dcf_record_class :: "'ty rclass"
  dcf_df :: nat
  dcf_index :: index
  dcf_cols :: wrapper

text \<open>
  A table object of the heap: the table, for each column the storage its values live
  in, and the storage the labels live in when the index was made of one column, whose
  storage it then shares. Table objects naming the same storage are slices of it from
  the first row on, and a value written through one of them shows in the others.
\<close>

record frame =
  fr_table :: table
  fr_bufs :: "nat list"
  fr_index_buf :: "nat option"

text \<open>
  The heap: the table objects and the store objects, each referred to by its position,
  and the next unused storage. Several stores may refer to one table object.
\<close>

record 'ty heap =
  frames :: "frame list"
  dcfs :: "'ty dcf list"
  next_buf :: nat

definition the_frame :: "'ty heap \<Rightarrow> nat \<Rightarrow> table" where
  "the_frame h d = fr_table (frames h ! dcf_df (dcfs h ! d))"

text \<open>
  What a write of the values \<open>row\<close> into row \<open>i\<close> of the storages \<open>bs\<close> does to a
  table object: each of its cells in row \<open>i\<close> that lives in one of the storages takes
  the value written there, and so does its label when the index shares one of them.
\<close>

definition shared_write :: "nat list \<Rightarrow> val list \<Rightarrow> nat \<Rightarrow> frame \<Rightarrow> frame" where
  "shared_write bs row i g =
     (let t = fr_table g;
          w = map_of (zip bs row);
          cell = (\<lambda>(j, old). case (if j < length (fr_bufs g) then w (fr_bufs g ! j) else None) of
                                 Some v \<Rightarrow> v | None \<Rightarrow> old)
      in g\<lparr>fr_table := t
            \<lparr>df_rows := (if i < length (df_rows t)
                          then (df_rows t)[i := map cell (enumerate 0 (df_rows t ! i))]
                          else df_rows t),
             df_index := (case fr_index_buf g of
                            None \<Rightarrow> df_index t
                          | Some b \<Rightarrow> (case w b of
                                        None \<Rightarrow> df_index t
                                      | Some v \<Rightarrow> (df_index t)[i := [v]]))\<rparr>\<rparr>)"

text \<open>
  \<open>_dataclass_to_empty_dataframe\<close>. The engine's resolution of a declared type to a
  storage type is the parameter \<open>pandas_dtype\<close>; only its TypeError is caught.
\<close>

fun derive_columns :: "('ty \<Rightarrow> py_error + dtype) \<Rightarrow> table \<Rightarrow> (string \<times> 'ty) list \<Rightarrow> py_error + table" where
  "derive_columns pandas_dtype df [] = Inr df"
| "derive_columns pandas_dtype df ((n, ty) # fs) =
     (case pandas_dtype ty of
        Inr d \<Rightarrow> derive_columns pandas_dtype (set_column df n d []) fs
      | Inl TypeError \<Rightarrow> derive_columns pandas_dtype (set_column df n Object []) fs
      | Inl e \<Rightarrow> Inl e)"

definition dataclass_to_empty_dataframe :: "('ty \<Rightarrow> py_error + dtype) \<Rightarrow> 'ty rclass \<Rightarrow> py_error + table" where
  "dataclass_to_empty_dataframe pandas_dtype record_class =
     derive_columns pandas_dtype DataFrame_empty (rc_fields record_class)"

text \<open>
  \<open>_from_dataframe\<close>, run on a new store object. Both \<open>set_index\<close> and
  \<open>reset_index\<close> return a new table object in storage of its own, which the store
  keeps; an index made of one column shares the storage of that column.
\<close>

definition private_from_dataframe ::
  "('ty \<Rightarrow> py_error + dtype) \<Rightarrow> 'ty rclass \<Rightarrow> table option \<Rightarrow> index \<Rightarrow> 'ty heap
   \<Rightarrow> (py_error + nat) \<times> 'ty heap" where
  "private_from_dataframe pandas_dtype record_class data index h =
     (case (case data of Some t \<Rightarrow> Inr t
                       | None \<Rightarrow> dataclass_to_empty_dataframe pandas_dtype record_class) of
        Inl e \<Rightarrow> (Inl e, h)
      | Inr df0 \<Rightarrow>
          (case (if index \<noteq> NoIndex then set_index df0 (index_keys index)
                 else Inr (reset_index df0)) of
             Inl e \<Rightarrow> (Inl e, h)
           | Inr df1 \<Rightarrow>
               (let self = length (dcfs h); nb = next_buf h
                in (Inr self,
                    h\<lparr>frames := frames h @
                        [\<lparr>fr_table = df1,
                          fr_bufs = [nb ..< nb + length (df_columns df1)],
                          fr_index_buf =
                            (case index_keys index of
                               [k] \<Rightarrow> map_option (\<lambda>j. nb + j) (find_col (colnames df1) k)
                             | _ \<Rightarrow> None)\<rparr>],
                      dcfs := dcfs h @
                        [\<lparr>dcf_record_class = record_class,
                          dcf_df = length (frames h),
                          dcf_index = index,
                          dcf_cols = \<lparr>w_dcf = self, w_cols = set (colnames df1)\<rparr>\<rparr>],
                      next_buf := nb + length (df_columns df1)\<rparr>))))"

definition from_dataframe ::
  "('ty \<Rightarrow> py_error + dtype) \<Rightarrow> 'ty rclass \<Rightarrow> table option \<Rightarrow> index \<Rightarrow> 'ty heap
   \<Rightarrow> (py_error + nat) \<times> 'ty heap" where
  "from_dataframe pandas_dtype record_class data index h =
     private_from_dataframe pandas_dtype record_class data index h"

definition validate_and_to_dict :: "'ty rclass \<Rightarrow> nat \<Rightarrow> pyobj \<Rightarrow> py_error + (string \<times> val) list" where
  "validate_and_to_dict record_class i dc =
     (if \<not> isinstance dc record_class
      then Inl (ValueError (AllDataMustBeOfType (rc_name record_class) dc i))
      else Inr (obj_dict dc))"

text \<open>The comprehension over \<open>enumerate(data)\<close>, from position \<open>i\<close> on.\<close>

fun validate_all :: "'ty rclass \<Rightarrow> nat \<Rightarrow> pyobj list \<Rightarrow> py_error + (string \<times> val) list list" where
  "validate_all record_class i [] = Inr []"
| "validate_all record_class i (dc # data) =
     (case validate_and_to_dict record_class i dc of
        Inl e \<Rightarrow> Inl e
      | Inr d \<Rightarrow> (case validate_all record_class (Suc i) data of
                   Inl e \<Rightarrow> Inl e
                 | Inr ds \<Rightarrow> Inr (d # ds)))"

text \<open>
  \<open>DataClassFrame.__init__\<close>; \<open>cast\<close> is the engine's conversion of appended values.
\<close>

definition DataClassFrame_init ::
  "('ty \<Rightarrow> py_error + dtype) \<Rightarrow> (dtype option \<Rightarrow> val list \<Rightarrow> dtype \<times> val list) \<Rightarrow>
   'ty rclass \<Rightarrow> pyobj list \<Rightarrow> index \<Rightarrow> 'ty heap \<Rightarrow> (py_error + nat) \<times> 'ty heap" where
  "DataClassFrame_init pandas_dtype cast record_class data index h =
     (case validate_all record_class 0 data of
        Inl e \<Rightarrow> (Inl e, h)
      | Inr df_data \<Rightarrow>
          if length df_data < 1 then (Inl (ValueError DataMustContainRecord), h)
          else (case dataclass_to_empty_dataframe pandas_dtype record_class of
                  Inl e \<Rightarrow> (Inl e, h)
                | Inr df \<Rightarrow>
                    private_from_dataframe pandas_dtype record_class
                      (Some (df_append cast df df_data)) index h))"

section \<open>Indexers, column accessor and derived views\<close>




text \<open>
  \<open>_IAtIndexer.__setitem__\<close>: the series holds the values of \<open>value.__dict__\<close> in its
  order; the table object of the store is changed in place, and with it whatever shares
  its storage.
\<close>

definition iat_setitem :: "'ty heap \<Rightarrow> nat \<Rightarrow> int \<Rightarrow> pyobj \<Rightarrow> (py_error + unit) \<times> 'ty heap" where
  "iat_setitem h d k v =
     (let f = dcf_df (dcfs h ! d); g = frames h ! f; row = map snd (obj_dict v) in
      case iloc_set (fr_table g) k row of
        Inl e \<Rightarrow> (Inl e, h)
      | Inr (i, t) \<Rightarrow>
          (Inr (), h\<lparr>frames := map (shared_write (fr_bufs g) row i)
                                   ((frames h)[f := g\<lparr>fr_table := t\<rparr>])\<rparr>))"

fun key_label :: "key \<Rightarrow> val list" where
  "key_label (KScalar k) = [k]"
| "key_label (KTuple ks) = ks"

text \<open>
  \<open>_AtIndexer.__setitem__\<close>. \<open>value.__dict__[self.dcf.index]\<close> is a dictionary lookup
  under the \<open>index\<close> attribute itself: \<open>None\<close> is a key the dictionary does not have,
  and a list cannot be a dictionary key at all (TypeError). A write under a label the
  table has goes to the rows carrying it, in place; a write under a new label enlarges
  the table, which then gets storage of its own.
\<close>

definition at_setitem :: "'ty heap \<Rightarrow> nat \<Rightarrow> key \<Rightarrow> pyobj \<Rightarrow> (py_error + unit) \<times> 'ty heap" where
  "at_setitem h d k v =
     (case dcf_index (dcfs h ! d) of
        IndexList l \<Rightarrow> (Inl TypeError, h)
      | NoIndex \<Rightarrow> (Inl KeyError, h)
      | IndexStr s \<Rightarrow>
          (case map_of (obj_dict v) s of
             None \<Rightarrow> (Inl KeyError, h)
           | Some index_value_in_record \<Rightarrow>
               if key_ne k index_value_in_record
               then (Inl (ValueError (KeyMustEqual k index_value_in_record)), h)
               else (let row = obj_dict v; f = dcf_df (dcfs h ! d); g = frames h ! f;
                         t = fr_table g; nb = next_buf h
                     in if key_label k \<in> set (df_index t)
                        then (Inr (),
                              h\<lparr>frames :=
                                  fold (\<lambda>i. map (shared_write (fr_bufs g) (align (colnames t) row) i))
                                       (filter (\<lambda>i. df_index t ! i = key_label k)
                                               [0 ..< length (df_index t)])
                                       ((frames h)[f := g\<lparr>fr_table := loc_set t (key_label k) row\<rparr>])\<rparr>)
                        else (Inr (),
                              h\<lparr>frames := (frames h)[f :=
                                  \<lparr>fr_table = loc_set t (key_label k) row,
                                   fr_bufs = [nb ..< nb + length (df_columns t)],
                                   fr_index_buf = None\<rparr>],
                                next_buf := nb + length (df_columns t)\<rparr>))))"

text \<open>
  \<open>_ColumnsWrapper.__getattribute__\<close>, reached through the \<open>cols\<close> property of store
  \<open>d\<close>: the column is read from the table the accessor's own store holds now.
\<close>

definition cols_getattribute :: "'ty heap \<Rightarrow> nat \<Rightarrow> string \<Rightarrow> py_error + val list" where
  "cols_getattribute h d n =
     (let w = dcf_cols (dcfs h ! d) in
      if n \<in> w_cols w then df_getitem (the_frame h (w_dcf w)) n
      else Inl AttributeError)"

text \<open>
  \<open>_ColumnsWrapper.__setattr__\<close>: a column name replaces that column, which gets
  storage of its own; any other name becomes an attribute of the accessor and leaves
  every table as it is.
\<close>

definition cols_setattr :: "'ty heap \<Rightarrow> nat \<Rightarrow> string \<Rightarrow> val list \<Rightarrow> (py_error + unit) \<times> 'ty heap" where
  "cols_setattr h d n vs =
     (let w = dcf_cols (dcfs h ! d) in
      if n \<in> w_cols w then
        (let f = dcf_df (dcfs h ! w_dcf w); g = frames h ! f in
         case df_setitem (fr_table g) n vs of
           Inl e \<Rightarrow> (Inl e, h)
         | Inr t \<Rightarrow>
             (Inr (),
              h\<lparr>frames := (frames h)[f := g
                   \<lparr>fr_table := t,
                    fr_bufs := (case find_col (colnames (fr_table g)) n of
                                  Some j \<Rightarrow> (fr_bufs g)[j := next_buf h]
                                | None \<Rightarrow> fr_bufs g @ [next_buf h])\<rparr>],
                next_buf := Suc (next_buf h)\<rparr>))
      else (Inr (), h))"

text \<open>
  \<open>copy\<close>. The shallow copy is a new store object with the same attributes: the same
  table object and the same accessor. The deep copy never returns: \<open>deepcopy\<close> rebuilds
  the accessor without running its \<open>__init__\<close>, and the first attribute it looks up on
  the rebuilt accessor goes through \<open>__getattribute__\<close>, which reads \<open>'__cols'\<close>
  before anything has set it; the AttributeError leaves the heap as it was.
\<close>

definition copy :: "'ty heap \<Rightarrow> nat \<Rightarrow> bool \<Rightarrow> (py_error + nat) \<times> 'ty heap" where
  "copy h d deep =
     (if deep then (Inl AttributeError, h)
      else (Inr (length (dcfs h)), h\<lparr>dcfs := dcfs h @ [dcfs h ! d]\<rparr>))"

text \<open>
  \<open>head\<close>: a shallow copy whose \<open>df\<close> attribute is then set to a new table object, the
  first rows of the parent's table, in the parent's storage.
\<close>

definition head :: "'ty heap \<Rightarrow> nat \<Rightarrow> int \<Rightarrow> (py_error + nat) \<times> 'ty heap" where
  "head h d n =
     (case copy h d False of
        (Inl e, h1) \<Rightarrow> (Inl e, h1)
      | (Inr new_dcf, h1) \<Rightarrow>
          (let g = frames h1 ! dcf_df (dcfs h1 ! d) in
           (Inr new_dcf,
            h1\<lparr>frames := frames h1 @ [g\<lparr>fr_table := df_head (fr_table g) n\<rparr>],
               dcfs := (dcfs h1)[new_dcf := (dcfs h1 ! new_dcf)\<lparr>dcf_df := length (frames h1)\<rparr>]\<rparr>)))"

section \<open>Sequences of operations\<close>

text \<open>
  The columns of the table of store \<open>d\<close> are the field names of its record class, in
  declaration order.
\<close>

definition cols_ok :: "'ty heap \<Rightarrow> nat \<Rightarrow> bool" where
  "cols_ok h d \<longleftrightarrow>
     colnames (the_frame h d) = map fst (rc_fields (dcf_record_class (dcfs h ! d)))"

text \<open>
  A heap as the operations leave it: every store refers to a table object and its
  accessor to a store, the names the accessor took are columns of that store's table,
  and every store's columns are its field names.
\<close>

definition heap_ok :: "'ty heap \<Rightarrow> bool" where
  "heap_ok h \<longleftrightarrow>
     (\<forall>d<length (dcfs h).
        dcf_df (dcfs h ! d) < length (frames h) \<and>
        w_dcf (dcf_cols (dcfs h ! d)) < length (dcfs h) \<and>
        w_cols (dcf_cols (dcfs h ! d)) \<subseteq> set (colnames (the_frame h (w_dcf (dcf_cols (dcfs h ! d))))) \<and>
        cols_ok h d)"

text \<open>The operations on stores; a store is named by its reference.\<close>

datatype 'ty op =
    New "'ty rclass" "pyobj list" index
  | Adopt "'ty rclass" "table option" index
  | IatSet nat int pyobj
  | AtSet nat key pyobj
  | ColsSet nat string "val list"
  | Head nat int
  | Copy nat bool

text \<open>
  The heap after an operation, whether it returned or raised. An operation on a store
  can only name a store that exists.
\<close>

fun apply_op ::
  "('ty \<Rightarrow> py_error + dtype) \<Rightarrow> (dtype option \<Rightarrow> val list \<Rightarrow> dtype \<times> val list) \<Rightarrow>
   'ty heap \<Rightarrow> 'ty op \<Rightarrow> 'ty heap" where
  "apply_op pd cast h (New rc data idx) = snd (DataClassFrame_init pd cast rc data idx h)"
| "apply_op pd cast h (Adopt rc t idx) = snd (from_dataframe pd rc t idx h)"
| "apply_op pd cast h (IatSet d k v) = (if d < length (dcfs h) then snd (iat_setitem h d k v) else h)"
| "apply_op pd cast h (AtSet d k v) = (if d < length (dcfs h) then snd (at_setitem h d k v) else h)"
| "apply_op pd cast h (ColsSet d n vs) = (if d < length (dcfs h) then snd (cols_setattr h d n vs) else h)"
| "apply_op pd cast h (Head d n) = (if d < length (dcfs h) then snd (head h d n) else h)"
| "apply_op pd cast h (Copy d deep) = (if d < length (dcfs h) then snd (copy h d deep) else h)"

definition run ::
  "('ty \<Rightarrow> py_error + dtype) \<Rightarrow> (dtype option \<Rightarrow> val list \<Rightarrow> dtype \<times> val list) \<Rightarrow>
   'ty heap \<Rightarrow> 'ty op list \<Rightarrow> 'ty heap" where
  "run pd cast h ops = foldl (apply_op pd cast) h ops"

text \<open>
  A record that holds exactly the fields of the record class, in declaration order, in
  its \<open>__dict__\<close>.
\<close>

definition conforms :: "'ty rclass \<Rightarrow> pyobj \<Rightarrow> bool" where
  "conforms record_class dc \<longleftrightarrow> map fst (obj_dict dc) = map fst (rc_fields record_class)"

text \<open>
  Constructions that establish the columns: the field names of the record class are
  distinct, every record that passes the instance check holds exactly the fields, and a
  table handed to \<open>from_dataframe\<close> has the fields as its columns.
\<close>

fun op_ok :: "'ty op \<Rightarrow> bool" where
  "op_ok (New rc data idx) =
     (distinct (map fst (rc_fields rc)) \<and> list_all (\<lambda>dc. \<not> isinstance dc rc \<or> conforms rc dc) data)"
| "op_ok (Adopt rc (Some t) idx) = (colnames t = map fst (rc_fields rc))"
| "op_ok (Adopt rc None idx) = distinct (map fst (rc_fields rc))"
| "op_ok _ = True"


definition declared_dtype :: "('ty \<Rightarrow> py_error + dtype) \<Rightarrow> 'ty \<Rightarrow> dtype" where
  "declared_dtype pd ty = (case pd ty of Inr d \<Rightarrow> d | Inl e \<Rightarrow> Object)"



section \<open>Example values\<close>

text \<open>Record classes, with the declared types written as in the source of the class.\<close>

definition Point :: "string rclass" where
  "Point = \<lparr>rc_name = ''Point'', rc_bases = [], rc_fields = [(''id'', ''str''), (''x'', ''int'')]\<rparr>"

definition Pair :: "string rclass" where
  "Pair = \<lparr>rc_name = ''Pair'', rc_bases = [],
           rc_fields = [(''a'', ''int''), (''b'', ''List[int]'')]\<rparr>"

definition Stamp :: "string rclass" where
  "Stamp = \<lparr>rc_name = ''Stamp'', rc_bases = [],
            rc_fields = [(''id'', ''str''), (''at'', ''np.datetime64'')]\<rparr>"

text \<open>
  The engine on these declared types: \<open>List[int]\<close> is not understood (TypeError), and
  \<open>np.datetime64\<close> is refused for having no unit (ValueError).
\<close>

definition example_dtype :: "string \<Rightarrow> py_error + dtype" where
  "example_dtype ty =
     (if ty = ''int'' then Inr Int64
      else if ty = ''float'' then Inr Float64
      else if ty = ''str'' then Inr Object
      else if ty = ''np.datetime64'' then Inl (ValueError DtypeHasNoUnit)
      else Inl TypeError)"

text \<open>The float nearest to an integer, ties to the even mantissa of 53 bits.\<close>

fun bit_len :: "nat \<Rightarrow> nat" where
  "bit_len n = (if n = 0 then 0 else Suc (bit_len (n div 2)))"

declare bit_len.simps [simp del]

definition round_float :: "int \<Rightarrow> int" where
  "round_float n =
     (let a = nat \<bar>n\<bar> in
      if a < 2 ^ 53 then n
      else let k = bit_len a - 53; q = a div 2 ^ k; r = a mod 2 ^ k;
               m = (if 2 ^ k < 2 * r \<or> (2 * r = 2 ^ k \<and> odd q) then q + 1 else q)
           in sgn n * int (m * 2 ^ k))"

fun to_float :: "val \<Rightarrow> val" where
  "to_float (IntV n) = IntV (round_float n)"
| "to_float v = v"

fun is_int :: "val \<Rightarrow> bool" where
  "is_int (IntV n) = True"
| "is_int v = False"

fun in_int64 :: "val \<Rightarrow> bool" where
  "in_int64 (IntV n) = (- (2 ^ 63) \<le> n \<and> n < 2 ^ 63)"
| "in_int64 v = False"

text \<open>
  The engine's conversion on the columns of the examples: a column with a value that
  is no number is untyped and keeps its values; integers stay what they are in a
  64-bit integer column they all fit in; otherwise the column is one of floats.
\<close>

definition example_cast :: "dtype option \<Rightarrow> val list \<Rightarrow> dtype \<times> val list" where
  "example_cast d vs =
     (if \<not> list_all is_int vs \<or> d = Some Object then (Object, vs)
      else if d = Some Float64 \<or> \<not> list_all in_int64 vs then (Float64, map to_float vs)
      else (Int64, vs))"

definition point :: "string \<Rightarrow> int \<Rightarrow> pyobj" where
  "point i x = \<lparr>obj_class = ''Point'', obj_bases = [],
               obj_dict = [(''id'', StrV i), (''x'', IntV x)]\<rparr>"


definition stranger :: pyobj where
  "stranger = \<lparr>obj_class = ''Other'', obj_bases = [],
               obj_dict = [(''id'', StrV ''b''), (''x'', IntV 2)]\<rparr>"

text \<open>A \<open>Point\<close> that was given one more attribute after it was made.\<close>

definition tagged_point :: pyobj where
  "tagged_point = \<lparr>obj_class = ''Point'', obj_bases = [],
                   obj_dict = [(''id'', StrV ''a''), (''x'', IntV 1), (''tag'', StrV ''t'')]\<rparr>"

definition example_table :: table where
  "example_table = \<lparr>df_columns = [(''id'', Object), (''x'', Int64)],
                     df_index = [[IntV 0], [IntV 1]],
                     df_rows = [[StrV ''a'', IntV 1], [StrV ''b'', IntV 2]]\<rparr>"

definition duplicate_table :: table where
  "duplicate_table = \<lparr>df_columns = [(''id'', Object), (''x'', Int64)],
                       df_index = [[IntV 0], [IntV 1]],
                       df_rows = [[StrV ''a'', IntV 1], [StrV ''a'', IntV 2]]\<rparr>"

text \<open>A table with one column, which is no field of \<open>Point\<close>.\<close>

definition other_table :: table where
  "other_table = \<lparr>df_columns = [(''k'', Int64)], df_index = [[IntV 0]], df_rows = [[IntV 7]]\<rparr>"

definition empty_heap :: "string heap" where
  "empty_heap = \<lparr>frames = [], dcfs = [], next_buf = 0\<rparr>"

definition three_points :: "pyobj list" where
  "three_points = [point ''a'' 1, point ''b'' 2, point ''c'' 3]"

text \<open>Store 0 built from three records; store 1 its \<open>head(2)\<close>; store 2 the \<open>head(1)\<close> of store 1.\<close>

definition parent_heap :: "string heap" where
  "parent_heap =
     snd (DataClassFrame_init example_dtype example_cast Point three_points NoIndex empty_heap)"

definition view_heap :: "string heap" where
  "view_heap = snd (head parent_heap 0 2)"

definition view_view_heap :: "string heap" where
  "view_view_heap = snd (head view_heap 1 1)"

definition example_ops :: "string op list" where
  "example_ops = [New Point three_points NoIndex, Head 0 2, IatSet 1 0 stranger,
                  ColsSet 1 ''x'' [IntV 7, IntV 8, IntV 9]]"

section \<open>Construction: validation\<close>



lemma validate_all_Inr:
  "validate_all rc k data = Inr ds \<Longrightarrow> ds = map obj_dict data \<and> (\<forall>dc\<in>set data. isinstance dc rc)"
  by (induction data arbitrary: k ds) (auto simp: validate_and_to_dict_def split: sum.splits if_splits)




text \<open>
  C8. Construction from no records fails with the ValueError "Data must contain at least
  one record", whatever the record class and the index argument; the heap is as before.
\<close>

theorem init_empty_input:
  "DataClassFrame_init pd cast rc [] idx h = (Inl (ValueError DataMustContainRecord), h)"
  by (simp add: DataClassFrame_init_def)

section \<open>The empty table of a record class\<close>

lemma find_col_None: "n \<notin> set cs \<Longrightarrow> find_col cs n = None"
  by (induction cs) auto

lemma find_col_Some:
  "find_col cs n = Some i \<Longrightarrow> i < length cs \<and> cs ! i = n"
  by (induction cs arbitrary: i) (auto split: if_splits)

lemma find_col_mem: "n \<in> set cs \<Longrightarrow> \<exists>i. find_col cs n = Some i"
  by (induction cs) auto



lemma derive_columns_names:
  "derive_columns pd df fs = Inr t \<Longrightarrow> distinct (map fst fs) \<Longrightarrow>
   set (map fst fs) \<inter> set (colnames df) = {} \<Longrightarrow> df_rows df = [] \<Longrightarrow>
   df_columns t = df_columns df @ map (\<lambda>(n, ty). (n, declared_dtype pd ty)) fs \<and>
   df_rows t = [] \<and> df_index t = df_index df"
proof (induction fs arbitrary: df)
  case Nil
  then show ?case by simp
next
  case (Cons f fs)
  obtain n ty where f: "f = (n, ty)" by (cases f)
  from Cons.prems f have nn: "n \<notin> set (colnames df)" by auto
  have sc: "set_column df n d [] = df\<lparr>df_columns := df_columns df @ [(n, d)]\<rparr>" for d
    using nn Cons.prems(4) by (simp add: set_column_def find_col_None)
  from Cons.prems(1) f have d: "derive_columns pd (set_column df n (declared_dtype pd ty) []) fs = Inr t"
    by (auto simp: declared_dtype_def split: sum.splits py_error.splits)
  have p: "distinct (map fst fs)"
    "set (map fst fs) \<inter> set (colnames (set_column df n (declared_dtype pd ty) [])) = {}"
    "df_rows (set_column df n (declared_dtype pd ty) []) = []"
    using Cons.prems f by (auto simp: sc colnames_def)
  from Cons.IH[OF d p] show ?case by (simp add: sc f)
qed

lemma derive_names:
  assumes "dataclass_to_empty_dataframe pd rc = Inr t" "distinct (map fst (rc_fields rc))"
  shows "df_columns t = map (\<lambda>(n, ty). (n, declared_dtype pd ty)) (rc_fields rc) \<and>
         df_rows t = [] \<and> df_index t = []"
  using derive_columns_names[OF assms(1)[unfolded dataclass_to_empty_dataframe_def] assms(2)]
  by (simp add: DataFrame_empty_def colnames_def)

text \<open>
  C3. A record class with a field declared \<open>np.datetime64\<close>: the engine refuses the
  type with a ValueError, the source catches TypeError only, and the derivation of the
  empty table raises that ValueError where the untyped column was to be made. A field
  declared \<open>List[int]\<close>, which the engine refuses with TypeError, gets the untyped
  column.
\<close>

theorem empty_table_datetime64:
  "example_dtype ''np.datetime64'' = Inl (ValueError DtypeHasNoUnit) \<and>
   dataclass_to_empty_dataframe example_dtype Stamp = Inl (ValueError DtypeHasNoUnit) \<and>
   dataclass_to_empty_dataframe example_dtype Pair =
     Inr \<lparr>df_columns = [(''a'', Int64), (''b'', Object)], df_index = [], df_rows = []\<rparr>"
  by (simp add: dataclass_to_empty_dataframe_def Stamp_def Pair_def example_dtype_def
      DataFrame_empty_def set_column_def colnames_def)

section \<open>Construction, then positional reads\<close>

lemma set_index_shape:
  "set_index t ks = Inr t1 \<Longrightarrow> df_columns t1 = df_columns t \<and> df_rows t1 = df_rows t"
  by (auto simp: set_index_def Let_def split: if_splits)

lemma private_from_dataframe_Some:
  assumes "private_from_dataframe pd rc (Some t) idx h = (Inr s, h')"
  shows "\<exists>t1 ib. s = length (dcfs h) \<and>
           h' = h\<lparr>frames := frames h @
                    [\<lparr>fr_table = t1,
                      fr_bufs = [next_buf h ..< next_buf h + length (df_columns t1)],
                      fr_index_buf = ib\<rparr>],
                  dcfs := dcfs h @ [\<lparr>dcf_record_class = rc, dcf_df = length (frames h),
                                     dcf_index = idx,
                                     dcf_cols = \<lparr>w_dcf = length (dcfs h), w_cols = set (colnames t1)\<rparr>\<rparr>],
                  next_buf := next_buf h + length (df_columns t1)\<rparr> \<and>
           df_columns t1 = df_columns t \<and> df_rows t1 = df_rows t \<and>
           (if idx = NoIndex then t1 = reset_index t else set_index t (index_keys idx) = Inr t1)"
proof (cases "idx = NoIndex")
  case True
  with assms show ?thesis
    by (auto simp: private_from_dataframe_def Let_def reset_index_def)
next
  case False
  with assms obtain t1 where t1: "set_index t (index_keys idx) = Inr t1"
    by (auto simp: private_from_dataframe_def split: sum.splits)
  with assms False set_index_shape[OF t1] show ?thesis
    by (auto simp: private_from_dataframe_def Let_def)
qed


lemma new_keys_Nil:
  "\<forall>d\<in>set ds. set (map fst d) \<subseteq> set cs \<Longrightarrow> new_keys cs ds = []"
  by (auto simp: new_keys_def filter_empty_conv)

lemma df_append_colnames:
  "colnames (df_append cast t ds) = colnames t @ new_keys (colnames t) ds"
  by (simp add: df_append_def Let_def colnames_def comp_def case_prod_beta)









section \<open>The examples, evaluated\<close>

lemmas eval_init =
  DataClassFrame_init_def validate_and_to_dict_def isinstance_def
  dataclass_to_empty_dataframe_def example_dtype_def DataFrame_empty_def set_column_def colnames_def
  df_append_def new_keys_def column_values_def example_cast_def Let_def
  upt_rec[of 0] upt_rec[of 1] upt_rec[of 2] upt_rec[of 3]

lemma example_indexed_store:
  "DataClassFrame_init example_dtype example_cast Point [point ''a'' 1, point ''b'' 2] idx empty_heap =
     private_from_dataframe example_dtype Point (Some example_table) idx empty_heap"
  by (simp add: eval_init point_def Point_def example_table_def)

lemma parent_heap_eq:
  "DataClassFrame_init example_dtype example_cast Point three_points NoIndex empty_heap = (Inr 0, parent_heap)"
  "parent_heap = \<lparr>frames = [\<lparr>fr_table = \<lparr>df_columns = [(''id'', Object), (''x'', Int64)],
                     df_index = [[IntV 0], [IntV 1], [IntV 2]],
                     df_rows = [[StrV ''a'', IntV 1], [StrV ''b'', IntV 2], [StrV ''c'', IntV 3]]\<rparr>,
                     fr_bufs = [0, 1], fr_index_buf = None\<rparr>],
                  dcfs = [\<lparr>dcf_record_class = Point, dcf_df = 0, dcf_index = NoIndex,
                          dcf_cols = \<lparr>w_dcf = 0, w_cols = {''id'', ''x''}\<rparr>\<rparr>],
                  next_buf = 2\<rparr>"
proof -
  have "DataClassFrame_init example_dtype example_cast Point three_points NoIndex empty_heap
    = (Inr 0, \<lparr>frames = [\<lparr>fr_table = \<lparr>df_columns = [(''id'', Object), (''x'', Int64)],
                     df_index = [[IntV 0], [IntV 1], [IntV 2]],
                     df_rows = [[StrV ''a'', IntV 1], [StrV ''b'', IntV 2], [StrV ''c'', IntV 3]]\<rparr>,
                     fr_bufs = [0, 1], fr_index_buf = None\<rparr>],
                  dcfs = [\<lparr>dcf_record_class = Point, dcf_df = 0, dcf_index = NoIndex,
                          dcf_cols = \<lparr>w_dcf = 0, w_cols = {''id'', ''x''}\<rparr>\<rparr>],
                  next_buf = 2\<rparr>)"
    by (simp add: eval_init point_def three_points_def
      private_from_dataframe_def reset_index_def empty_heap_def Point_def)
  then show "DataClassFrame_init example_dtype example_cast Point three_points NoIndex empty_heap = (Inr 0, parent_heap)"
    "parent_heap = \<lparr>frames = [\<lparr>fr_table = \<lparr>df_columns = [(''id'', Object), (''x'', Int64)],
                     df_index = [[IntV 0], [IntV 1], [IntV 2]],
                     df_rows = [[StrV ''a'', IntV 1], [StrV ''b'', IntV 2], [StrV ''c'', IntV 3]]\<rparr>,
                     fr_bufs = [0, 1], fr_index_buf = None\<rparr>],
                  dcfs = [\<lparr>dcf_record_class = Point, dcf_df = 0, dcf_index = NoIndex,
                          dcf_cols = \<lparr>w_dcf = 0, w_cols = {''id'', ''x''}\<rparr>\<rparr>],
                  next_buf = 2\<rparr>"
    by (simp_all add: parent_heap_def)
qed






section \<open>Index promotion\<close>

text \<open>
  C4. Index application, shared by both constructors, with a non-empty list of index
  fields that are columns of the table: when two rows have the same values under the
  index fields, construction fails with the ValueError of the integrity check and the
  heap is as before; when no two rows have, construction returns a store whose row
  labels are the rows' values under the index fields and whose columns and rows are
  those of the table, the index fields still among the columns.
\<close>

theorem index_promotion:
  assumes keys: "index_keys idx \<noteq> []" "set (index_keys idx) \<subseteq> set (colnames t)"
  shows "(\<not> distinct (map (row_label (colnames t) (index_keys idx)) (df_rows t)) \<longrightarrow>
            private_from_dataframe pd rc (Some t) idx h =
              (Inl (ValueError IndexHasDuplicateKeys), h)) \<and>
         (distinct (map (row_label (colnames t) (index_keys idx)) (df_rows t)) \<longrightarrow>
            (\<exists>s h'. private_from_dataframe pd rc (Some t) idx h = (Inr s, h') \<and>
               dcf_index (dcfs h' ! s) = idx \<and>
               df_index (the_frame h' s) = map (row_label (colnames t) (index_keys idx)) (df_rows t) \<and>
               df_columns (the_frame h' s) = df_columns t \<and>
               df_rows (the_frame h' s) = df_rows t))"
proof -
  from keys(1) have ni: "idx \<noteq> NoIndex" by (cases idx) auto
  show ?thesis
    using keys ni
    by (auto simp: private_from_dataframe_def set_index_def Let_def the_frame_def)
qed

theorem index_promotion_witness:
  "private_from_dataframe example_dtype Point (Some duplicate_table) (IndexList [''id'']) empty_heap =
     (Inl (ValueError IndexHasDuplicateKeys), empty_heap) \<and>
   (\<exists>s h'. private_from_dataframe example_dtype Point (Some example_table) (IndexStr ''id'') empty_heap
              = (Inr s, h') \<and>
      df_index (the_frame h' s) = [[StrV ''a''], [StrV ''b'']] \<and>
      df_columns (the_frame h' s) = [(''id'', Object), (''x'', Int64)] \<and>
      df_rows (the_frame h' s) = [[StrV ''a'', IntV 1], [StrV ''b'', IntV 2]])"
proof -
  have k1: "index_keys (IndexList [''id'']) \<noteq> []"
    "set (index_keys (IndexList [''id''])) \<subseteq> set (colnames duplicate_table)"
    by (simp_all add: duplicate_table_def colnames_def)
  have k2: "index_keys (IndexStr ''id'') \<noteq> []"
    "set (index_keys (IndexStr ''id'')) \<subseteq> set (colnames example_table)"
    by (simp_all add: example_table_def colnames_def)
  from index_promotion[OF k1, of example_dtype Point empty_heap]
  have a: "private_from_dataframe example_dtype Point (Some duplicate_table) (IndexList [''id''])
             empty_heap = (Inl (ValueError IndexHasDuplicateKeys), empty_heap)"
    by (simp add: duplicate_table_def colnames_def row_label_def)
  from index_promotion[OF k2, of example_dtype Point empty_heap]
  have b: "\<exists>s h'. private_from_dataframe example_dtype Point (Some example_table) (IndexStr ''id'') empty_heap
              = (Inr s, h') \<and>
      df_index (the_frame h' s) = [[StrV ''a''], [StrV ''b'']] \<and>
      df_columns (the_frame h' s) = [(''id'', Object), (''x'', Int64)] \<and>
      df_rows (the_frame h' s) = [[StrV ''a'', IntV 1], [StrV ''b'', IntV 2]]"
    by (auto simp: example_table_def colnames_def row_label_def)
  from a b show ?thesis by blast
qed

section \<open>Key writes\<close>

lemma at_setitem_single:
  assumes "dcf_index (dcfs h ! d) = IndexStr s" "map_of (obj_dict v) s = Some iv"
  shows "(\<not> py_eq k iv \<longrightarrow>
            at_setitem h d (KScalar k) v = (Inl (ValueError (KeyMustEqual (KScalar k) iv)), h)) \<and>
         (py_eq k iv \<longrightarrow> fst (at_setitem h d (KScalar k) v) = Inr ())"
  using assms by (simp add: at_setitem_def Let_def)

lemma at_setitem_list:
  "dcf_index (dcfs h ! d) = IndexList l \<Longrightarrow> at_setitem h d k v = (Inl TypeError, h)"
  by (simp add: at_setitem_def)

text \<open>
  C2. A store built with the index given as a list, \<open>index=["id"]\<close>, and a write of a
  record under the key equal to the record's own \<open>id\<close>: the write does not succeed, it
  fails with TypeError, the list being used as a dictionary key; the heap is as before.
\<close>

theorem key_write_list_index:
  "\<exists>s h'. DataClassFrame_init example_dtype example_cast Point [point ''a'' 1, point ''b'' 2]
             (IndexList [''id'']) empty_heap = (Inr s, h') \<and>
          map_of (obj_dict (point ''a'' 5)) ''id'' = Some (StrV ''a'') \<and>
          at_setitem h' s (KScalar (StrV ''a'')) (point ''a'' 5) = (Inl TypeError, h')"
  unfolding example_indexed_store
  by (simp add: private_from_dataframe_def set_index_def example_table_def colnames_def
      row_label_def Let_def empty_heap_def at_setitem_def point_def)

section \<open>Writes and the record class\<close>

lemma resolve_pos_in_range:
  "- int n \<le> k \<Longrightarrow> k < int n \<Longrightarrow> \<exists>p. resolve_pos n k = Some p \<and> p < n"
  by (auto simp: resolve_pos_def Let_def)

text \<open>
  C10. A positional write at a position within range, of a value with as many
  attributes as the table has columns, succeeds whatever the class of the value; the
  outcome of a positional write and of a key write is the same when the class of the
  value is changed, and neither ever fails with the type error of construction;
  construction from a value that is not an instance of the record class fails with
  that error.
\<close>

theorem writes_do_not_check_type:
  "(- int (length (df_rows (the_frame h d))) \<le> k \<and> k < int (length (df_rows (the_frame h d))) \<and>
    length (obj_dict v) = length (df_columns (the_frame h d))
      \<longrightarrow> fst (iat_setitem h d k v) = Inr ()) \<and>
   iat_setitem h d k (v\<lparr>obj_class := c, obj_bases := bs\<rparr>) = iat_setitem h d k v \<and>
   at_setitem h d key (v\<lparr>obj_class := c, obj_bases := bs\<rparr>) = at_setitem h d key v \<and>
   (\<forall>n x i. fst (iat_setitem h d k v) \<noteq> Inl (ValueError (AllDataMustBeOfType n x i))) \<and>
   (\<forall>n x i. fst (at_setitem h d key v) \<noteq> Inl (ValueError (AllDataMustBeOfType n x i))) \<and>
   (\<not> isinstance v rc \<longrightarrow>
      DataClassFrame_init pd cast rc [v] idx h0 =
        (Inl (ValueError (AllDataMustBeOfType (rc_name rc) v 0)), h0))"
proof -
  have 1: "fst (iat_setitem h d k v) = Inr ()"
    if a: "- int (length (df_rows (the_frame h d))) \<le> k" "k < int (length (df_rows (the_frame h d)))"
      and l: "length (obj_dict v) = length (df_columns (the_frame h d))"
  proof -
    from resolve_pos_in_range[OF a] obtain p where
      p: "resolve_pos (length (df_rows (fr_table (frames h ! dcf_df (dcfs h ! d))))) k = Some p"
      by (auto simp: the_frame_def)
    show ?thesis
      using l by (simp add: iat_setitem_def iloc_set_def p Let_def the_frame_def)
  qed
  have 2: "iat_setitem h d k (v\<lparr>obj_class := c, obj_bases := bs\<rparr>) = iat_setitem h d k v"
    by (simp add: iat_setitem_def)
  have 3: "at_setitem h d key (v\<lparr>obj_class := c, obj_bases := bs\<rparr>) = at_setitem h d key v"
    by (simp add: at_setitem_def Let_def split: index.splits option.splits)
  have 4: "\<forall>n x i. fst (iat_setitem h d k v) \<noteq> Inl (ValueError (AllDataMustBeOfType n x i))"
    by (simp add: iat_setitem_def iloc_set_def Let_def split: option.splits)
  have 5: "\<forall>n x i. fst (at_setitem h d key v) \<noteq> Inl (ValueError (AllDataMustBeOfType n x i))"
    by (simp add: at_setitem_def Let_def split: index.splits option.splits)
  have 6: "\<not> isinstance v rc \<longrightarrow>
            DataClassFrame_init pd cast rc [v] idx h0 =
              (Inl (ValueError (AllDataMustBeOfType (rc_name rc) v 0)), h0)"
    by (simp add: DataClassFrame_init_def validate_and_to_dict_def)
  from 1 2 3 4 5 6 show ?thesis by blast
qed

theorem writes_do_not_check_type_witness:
  "\<not> isinstance stranger Point \<and>
   fst (iat_setitem parent_heap 0 1 stranger) = Inr () \<and>
   fst (iat_setitem parent_heap 0 (- 3) stranger) = Inr () \<and>
   fst (iat_setitem parent_heap 0 1 tagged_point) = Inl (ValueError LengthMismatch) \<and>
   DataClassFrame_init example_dtype example_cast Point [stranger] NoIndex empty_heap =
     (Inl (ValueError (AllDataMustBeOfType ''Point'' stranger 0)), empty_heap)"
proof -
  have r: "length (df_rows (the_frame parent_heap 0)) = 3"
    "length (df_columns (the_frame parent_heap 0)) = 2"
    by (simp_all add: parent_heap_eq(2) the_frame_def)
  have a: "- int (length (df_rows (the_frame parent_heap 0))) \<le> 1 \<and>
    1 < int (length (df_rows (the_frame parent_heap 0))) \<and>
    length (obj_dict stranger) = length (df_columns (the_frame parent_heap 0))"
    and b: "- int (length (df_rows (the_frame parent_heap 0))) \<le> - 3 \<and>
    - 3 < int (length (df_rows (the_frame parent_heap 0))) \<and>
    length (obj_dict stranger) = length (df_columns (the_frame parent_heap 0))"
    by (simp_all add: r stranger_def)
  have n: "\<not> isinstance stranger Point" by (simp add: isinstance_def stranger_def Point_def)
  have 1: "fst (iat_setitem parent_heap 0 1 stranger) = Inr ()"
    using writes_do_not_check_type[of parent_heap 0 1 stranger, THEN conjunct1] a by blast
  have 2: "fst (iat_setitem parent_heap 0 (- 3) stranger) = Inr ()"
    using writes_do_not_check_type[of parent_heap 0 "- 3" stranger, THEN conjunct1] b by blast
  have 3: "DataClassFrame_init example_dtype example_cast Point [stranger] NoIndex empty_heap =
     (Inl (ValueError (AllDataMustBeOfType (rc_name Point) stranger 0)), empty_heap)"
    using writes_do_not_check_type[where v = stranger and rc = Point and pd = example_dtype
        and cast = example_cast and idx = NoIndex and ?h0.0 = empty_heap] n
    by blast
  have 4: "fst (iat_setitem parent_heap 0 1 tagged_point) = Inl (ValueError LengthMismatch)"
    by (simp add: iat_setitem_def iloc_set_def resolve_pos_def Let_def parent_heap_eq(2)
        tagged_point_def)
  from 1 2 3 4 n show ?thesis by (simp add: Point_def)
qed

section \<open>Derived views\<close>

lemma head_eq:
  "d < length (dcfs h) \<Longrightarrow>
   head h d n = (Inr (length (dcfs h)),
     h\<lparr>frames := frames h @
          [(frames h ! dcf_df (dcfs h ! d))\<lparr>fr_table := df_head (the_frame h d) n\<rparr>],
       dcfs := dcfs h @ [(dcfs h ! d)\<lparr>dcf_df := length (frames h)\<rparr>]\<rparr>)"
  by (simp add: head_def copy_def Let_def the_frame_def nth_append)

lemma shared_write_table:
  "df_columns (fr_table (shared_write bs row i g)) = df_columns (fr_table g)"
  "length (df_rows (fr_table (shared_write bs row i g))) = length (df_rows (fr_table g))"
  by (simp_all add: shared_write_def Let_def)

lemma fold_map_length: "length (fold (\<lambda>i. map (F i)) js fs) = length fs"
  by (induction js arbitrary: fs) simp_all

lemma fold_map_keeps:
  assumes "\<And>i g. K (F i g) = K g" and "p < length fs"
  shows "K (fold (\<lambda>i. map (F i)) js fs ! p) = K (fs ! p)"
  using assms(2)
proof (induction js arbitrary: fs)
  case Nil
  then show ?case by simp
next
  case (Cons j js)
  from Cons.prems have "p < length (map (F j) fs)" by simp
  from Cons.IH[OF this] Cons.prems assms(1) show ?case by simp
qed



lemma iat_setitem_dcfs: "dcfs (snd (iat_setitem h d k v)) = dcfs h"
  by (simp add: iat_setitem_def Let_def split: sum.splits prod.splits)

lemma at_setitem_dcfs: "dcfs (snd (at_setitem h d k v)) = dcfs h"
  by (simp add: at_setitem_def Let_def split: index.splits option.splits)

lemma cols_setattr_dcfs: "dcfs (snd (cols_setattr h d n vs)) = dcfs h"
  by (simp add: cols_setattr_def Let_def split: sum.splits)


lemma view_heap_eq:
  "head parent_heap 0 2 = (Inr 1, view_heap)"
  "view_heap = parent_heap\<lparr>frames := frames parent_heap @
          [(frames parent_heap ! 0)\<lparr>fr_table := df_head (the_frame parent_heap 0) 2\<rparr>],
       dcfs := dcfs parent_heap @ [(dcfs parent_heap ! 0)\<lparr>dcf_df := 1\<rparr>]\<rparr>"
proof -
  have d: "0 < length (dcfs parent_heap)" by (simp add: parent_heap_eq(2))
  from head_eq[OF d, of 2] show "head parent_heap 0 2 = (Inr 1, view_heap)"
    and "view_heap = parent_heap\<lparr>frames := frames parent_heap @
          [(frames parent_heap ! 0)\<lparr>fr_table := df_head (the_frame parent_heap 0) 2\<rparr>],
       dcfs := dcfs parent_heap @ [(dcfs parent_heap ! 0)\<lparr>dcf_df := 1\<rparr>]\<rparr>"
    by (simp_all add: view_heap_def parent_heap_eq(2))
qed

lemma view_view_heap_eq:
  "head view_heap 1 1 = (Inr 2, view_view_heap)"
  "view_view_heap = view_heap\<lparr>frames := frames view_heap @
          [(frames view_heap ! 1)\<lparr>fr_table := df_head (the_frame view_heap 1) 1\<rparr>],
       dcfs := dcfs view_heap @ [(dcfs view_heap ! 1)\<lparr>dcf_df := 2\<rparr>]\<rparr>"
proof -
  have d: "1 < length (dcfs view_heap)" by (simp add: view_heap_eq(2) parent_heap_eq(2))
  from head_eq[OF d, of 1] show "head view_heap 1 1 = (Inr 2, view_view_heap)"
    and "view_view_heap = view_heap\<lparr>frames := frames view_heap @
          [(frames view_heap ! 1)\<lparr>fr_table := df_head (the_frame view_heap 1) 1\<rparr>],
       dcfs := dcfs view_heap @ [(dcfs view_heap ! 1)\<lparr>dcf_df := 2\<rparr>]\<rparr>"
    by (simp_all add: view_view_heap_def view_heap_eq(2) parent_heap_eq(2))
qed


text \<open>
  Shared storage at work: a positional write through the view of store 0 shows in the
  table of store 0; and on a store indexed by one field the positional write of a record
  with another value of that field changes the label of the row.
\<close>

lemma write_through_view:
  "df_rows (the_frame (snd (iat_setitem view_heap 1 0 (point ''z'' 9))) 0) =
     [[StrV ''z'', IntV 9], [StrV ''b'', IntV 2], [StrV ''c'', IntV 3]]"
  by (simp add: iat_setitem_def Let_def iloc_set_def resolve_pos_def view_heap_eq(2)
      parent_heap_eq(2) the_frame_def df_head_def point_def shared_write_def enumerate_eq_zip
      upt_rec[of 0] upt_rec[of 1] upt_rec[of 2])

lemma positional_write_relabels:
  "\<exists>s h'. DataClassFrame_init example_dtype example_cast Point [point ''a'' 1, point ''b'' 2]
             (IndexStr ''id'') empty_heap = (Inr s, h') \<and>
          df_index (the_frame h' s) = [[StrV ''a''], [StrV ''b'']] \<and>
          df_index (the_frame (snd (iat_setitem h' s 0 (point ''z'' 9))) s) = [[StrV ''z''], [StrV ''b'']]"
  unfolding example_indexed_store
  by (simp add: private_from_dataframe_def set_index_def example_table_def colnames_def
      row_label_def Let_def empty_heap_def iat_setitem_def iloc_set_def resolve_pos_def
      the_frame_def point_def shared_write_def enumerate_eq_zip
      upt_rec[of 0] upt_rec[of 1] upt_rec[of 2])

text \<open>
  C9 (amended). The store returned by \<open>head(n)\<close> holds the accessor of the store it was
  taken from, and a column name read through it is read from the table of the store
  that accessor was made for, as it is now. When that is the store \<open>head\<close> was taken
  from, the column has as many entries as that store has rows, whatever \<open>n\<close>.
\<close>

theorem head_accessor:
  assumes d: "d < length (dcfs h)"
    and r: "w_dcf (dcf_cols (dcfs h ! d)) < length (dcfs h)"
    and f: "dcf_df (dcfs h ! w_dcf (dcf_cols (dcfs h ! d))) < length (frames h)"
    and c: "name \<in> w_cols (dcf_cols (dcfs h ! d))"
  shows "\<exists>v h1. head h d n = (Inr v, h1) \<and>
           dcf_cols (dcfs h1 ! v) = dcf_cols (dcfs h ! d) \<and>
           cols_getattribute h1 v name =
             df_getitem (the_frame h (w_dcf (dcf_cols (dcfs h ! d)))) name \<and>
           (w_dcf (dcf_cols (dcfs h ! d)) = d \<and> name \<in> set (colnames (the_frame h d)) \<longrightarrow>
              (\<exists>col. cols_getattribute h1 v name = Inr col \<and>
                     length col = length (df_rows (the_frame h d))))"
proof -
  define v where "v = length (dcfs h)"
  define h1 where "h1 = h\<lparr>frames := frames h @
          [(frames h ! dcf_df (dcfs h ! d))\<lparr>fr_table := df_head (the_frame h d) n\<rparr>],
       dcfs := dcfs h @ [(dcfs h ! d)\<lparr>dcf_df := length (frames h)\<rparr>]\<rparr>"
  define w where "w = dcf_cols (dcfs h ! d)"
  have hd: "head h d n = (Inr v, h1)" unfolding v_def h1_def by (rule head_eq[OF d])
  have wv: "dcf_cols (dcfs h1 ! v) = w"
    by (simp add: h1_def v_def w_def)
  have fr: "the_frame h1 (w_dcf w) = the_frame h (w_dcf w)"
    using r f by (simp add: the_frame_def h1_def nth_append w_def)
  have rd: "cols_getattribute h1 v name = df_getitem (the_frame h (w_dcf w)) name"
    using c fr by (simp add: cols_getattribute_def wv) (simp add: w_def)
  have own: "\<exists>col. cols_getattribute h1 v name = Inr col \<and>
                     length col = length (df_rows (the_frame h d))"
    if "w_dcf w = d" "name \<in> set (colnames (the_frame h d))"
  proof -
    from find_col_mem[OF that(2)] obtain i where
      "find_col (colnames (the_frame h d)) name = Some i" by blast
    with that(1) show ?thesis by (simp add: rd df_getitem_def)
  qed
  from hd wv rd own show ?thesis unfolding w_def by blast
qed

theorem head_accessor_witness:
  "cols_getattribute view_heap 1 ''x'' = Inr [IntV 1, IntV 2, IntV 3] \<and>
   length (df_rows (the_frame view_heap 1)) = 2 \<and>
   length (df_rows (the_frame parent_heap 0)) = 3"
proof -
  have d: "0 < length (dcfs parent_heap)"
    and r: "w_dcf (dcf_cols (dcfs parent_heap ! 0)) < length (dcfs parent_heap)"
    and f: "dcf_df (dcfs parent_heap ! w_dcf (dcf_cols (dcfs parent_heap ! 0))) < length (frames parent_heap)"
    and c: "''x'' \<in> w_cols (dcf_cols (dcfs parent_heap ! 0))"
    by (simp_all add: parent_heap_eq(2))
  from head_accessor[OF d r f c, of 2] view_heap_eq(1)
  have "cols_getattribute view_heap 1 ''x'' =
             df_getitem (the_frame parent_heap (w_dcf (dcf_cols (dcfs parent_heap ! 0)))) ''x''"
    by auto
  also have "\<dots> = Inr [IntV 1, IntV 2, IntV 3]"
    by (simp add: parent_heap_eq(2) the_frame_def df_getitem_def colnames_def)
  finally have 1: "cols_getattribute view_heap 1 ''x'' = Inr [IntV 1, IntV 2, IntV 3]" .
  have 2: "length (df_rows (the_frame view_heap 1)) = 2"
    by (simp add: view_heap_eq(2) parent_heap_eq(2) the_frame_def df_head_def)
  have 3: "length (df_rows (the_frame parent_heap 0)) = 3"
    by (simp add: parent_heap_eq(2) the_frame_def)
  from 1 2 3 show ?thesis by simp
qed

text \<open>
  C9 as stated fails for a store that is itself a view: store 1 is \<open>head(2)\<close> of the
  three-row store 0, so it has \<open>m = 2\<close> rows; the column read through its \<open>head(1)\<close>
  has three entries, the column of store 0, and is not the column of store 1's table.
\<close>

theorem head_of_view_accessor:
  "fst (head view_heap 1 1) = Inr 2 \<and>
   snd (head view_heap 1 1) = view_view_heap \<and>
   length (df_rows (the_frame view_heap 1)) = 2 \<and>
   cols_getattribute view_view_heap 2 ''x'' = Inr [IntV 1, IntV 2, IntV 3] \<and>
   df_getitem (the_frame view_heap 1) ''x'' = Inr [IntV 1, IntV 2]"
proof -
  have 1: "length (df_rows (the_frame view_heap 1)) = 2"
    by (simp add: view_heap_eq(2) parent_heap_eq(2) the_frame_def df_head_def)
  have 2: "cols_getattribute view_view_heap 2 ''x'' = Inr [IntV 1, IntV 2, IntV 3]"
    by (simp add: view_view_heap_eq(2) view_heap_eq(2) parent_heap_eq(2) cols_getattribute_def
        the_frame_def df_getitem_def colnames_def)
  have 3: "df_getitem (the_frame view_heap 1) ''x'' = Inr [IntV 1, IntV 2]"
    by (simp add: view_heap_eq(2) parent_heap_eq(2) the_frame_def df_getitem_def colnames_def
        df_head_def)
  from 1 2 3 view_view_heap_eq(1) show ?thesis by simp
qed

section \<open>The columns of a store\<close>

lemma heap_okD:
  "heap_ok h \<Longrightarrow> d < length (dcfs h) \<Longrightarrow>
   dcf_df (dcfs h ! d) < length (frames h) \<and>
   w_dcf (dcf_cols (dcfs h ! d)) < length (dcfs h) \<and>
   w_cols (dcf_cols (dcfs h ! d))
     \<subseteq> set (colnames (fr_table (frames h ! dcf_df (dcfs h ! w_dcf (dcf_cols (dcfs h ! d)))))) \<and>
   colnames (fr_table (frames h ! dcf_df (dcfs h ! d))) = map fst (rc_fields (dcf_record_class (dcfs h ! d)))"
  unfolding heap_ok_def cols_ok_def the_frame_def by blast

lemma heap_okI:
  assumes "\<And>d. d < length (dcfs h) \<Longrightarrow>
   dcf_df (dcfs h ! d) < length (frames h) \<and>
   w_dcf (dcf_cols (dcfs h ! d)) < length (dcfs h) \<and>
   w_cols (dcf_cols (dcfs h ! d))
     \<subseteq> set (colnames (fr_table (frames h ! dcf_df (dcfs h ! w_dcf (dcf_cols (dcfs h ! d)))))) \<and>
   colnames (fr_table (frames h ! dcf_df (dcfs h ! d))) = map fst (rc_fields (dcf_record_class (dcfs h ! d)))"
  shows "heap_ok h"
  unfolding heap_ok_def cols_ok_def the_frame_def using assms by blast

text \<open>
  The invariant looks at the columns of the table objects only: it is kept when the
  table objects are replaced by ones with the same columns.
\<close>

lemma heap_ok_frames_change:
  assumes ok: "heap_ok h"
    and l: "length (frames h') = length (frames h)" and ds: "dcfs h' = dcfs h"
    and c: "\<And>p. p < length (frames h) \<Longrightarrow>
              colnames (fr_table (frames h' ! p)) = colnames (fr_table (frames h ! p))"
  shows "heap_ok h'"
proof (rule heap_okI)
  fix d assume "d < length (dcfs h')"
  then have d: "d < length (dcfs h)" by (simp add: ds)
  note D = heap_okD[OF ok d]
  from D have r: "w_dcf (dcf_cols (dcfs h ! d)) < length (dcfs h)" by blast
  note R = heap_okD[OF ok r]
  from D have 1: "colnames (fr_table (frames h' ! dcf_df (dcfs h ! d)))
      = colnames (fr_table (frames h ! dcf_df (dcfs h ! d)))" by (intro c) blast
  from R have 2: "colnames (fr_table (frames h' ! dcf_df (dcfs h ! w_dcf (dcf_cols (dcfs h ! d)))))
      = colnames (fr_table (frames h ! dcf_df (dcfs h ! w_dcf (dcf_cols (dcfs h ! d)))))"
    by (intro c) blast
  from D show "dcf_df (dcfs h' ! d) < length (frames h') \<and>
   w_dcf (dcf_cols (dcfs h' ! d)) < length (dcfs h') \<and>
   w_cols (dcf_cols (dcfs h' ! d))
     \<subseteq> set (colnames (fr_table (frames h' ! dcf_df (dcfs h' ! w_dcf (dcf_cols (dcfs h' ! d)))))) \<and>
   colnames (fr_table (frames h' ! dcf_df (dcfs h' ! d))) = map fst (rc_fields (dcf_record_class (dcfs h' ! d)))"
    unfolding ds l 1 2 by blast
qed

lemma heap_ok_extend:
  assumes ok: "heap_ok h"
    and fr: "frames h' = frames h @ fs" and dc: "dcfs h' = dcfs h @ ds"
    and new: "\<forall>j<length ds.
        dcf_df (ds ! j) < length (frames h @ fs) \<and>
        w_dcf (dcf_cols (ds ! j)) < length (dcfs h @ ds) \<and>
        w_cols (dcf_cols (ds ! j))
          \<subseteq> set (colnames (fr_table ((frames h @ fs) ! dcf_df ((dcfs h @ ds) ! w_dcf (dcf_cols (ds ! j)))))) \<and>
        colnames (fr_table ((frames h @ fs) ! dcf_df (ds ! j))) = map fst (rc_fields (dcf_record_class (ds ! j)))"
  shows "heap_ok h'"
proof (rule heap_okI)
  fix d
  assume "d < length (dcfs h')"
  then have d: "d < length (dcfs h) + length ds" by (simp add: dc)
  show "dcf_df (dcfs h' ! d) < length (frames h') \<and>
   w_dcf (dcf_cols (dcfs h' ! d)) < length (dcfs h') \<and>
   w_cols (dcf_cols (dcfs h' ! d))
     \<subseteq> set (colnames (fr_table (frames h' ! dcf_df (dcfs h' ! w_dcf (dcf_cols (dcfs h' ! d)))))) \<and>
   colnames (fr_table (frames h' ! dcf_df (dcfs h' ! d))) = map fst (rc_fields (dcf_record_class (dcfs h' ! d)))"
  proof (cases "d < length (dcfs h)")
    case True
    note D = heap_okD[OF ok True]
    from D have r: "w_dcf (dcf_cols (dcfs h ! d)) < length (dcfs h)" by blast
    note R = heap_okD[OF ok r]
    from True D R r show ?thesis
      by (simp add: fr dc nth_append)
  next
    case False
    with d have j: "d - length (dcfs h) < length ds" by simp
    from new[rule_format, OF j] False show ?thesis
      by (simp add: fr dc nth_append)
  qed
qed

lemma iloc_set_colnames: "iloc_set t k row = Inr (i, t') \<Longrightarrow> colnames t' = colnames t"
  by (auto simp: iloc_set_def colnames_def split: option.splits if_splits)

lemma loc_set_colnames: "colnames (loc_set t k d) = colnames t"
  by (simp add: loc_set_def colnames_def Let_def)

lemma set_column_colnames: "n \<in> set (colnames t) \<Longrightarrow> colnames (set_column t n d vs) = colnames t"
proof -
  assume "n \<in> set (colnames t)"
  from find_col_mem[OF this] obtain i where i: "find_col (colnames t) n = Some i" by blast
  from find_col_Some[OF i] have "i < length (df_columns t)" "map fst (df_columns t) ! i = n"
    by (simp_all add: colnames_def)
  then have "map fst ((df_columns t)[i := (n, d)]) = map fst (df_columns t)"
    by (simp add: map_update list_update_same_conv)
  with i show ?thesis by (simp add: set_column_def) (simp add: colnames_def)
qed

lemma shared_write_colnames: "colnames (fr_table (shared_write bs row i g)) = colnames (fr_table g)"
  by (simp add: colnames_def shared_write_table)

lemma nth_update_colnames:
  assumes "colnames (fr_table g') = colnames (fr_table (fs ! f))"
  shows "colnames (fr_table (fs[f := g'] ! p)) = colnames (fr_table (fs ! p))"
proof (cases "f < length fs")
  case True
  with assms show ?thesis by (cases "p = f") simp_all
next
  case False
  then have "fs[f := g'] = fs" by (simp add: list_update_beyond)
  then show ?thesis by simp
qed

lemma iat_setitem_heap_ok:
  assumes ok: "heap_ok h"
  shows "heap_ok (snd (iat_setitem h d k v))"
proof (rule heap_ok_frames_change[OF ok])
  show "length (frames (snd (iat_setitem h d k v))) = length (frames h)"
    by (simp add: iat_setitem_def Let_def split: sum.splits prod.splits)
  show "dcfs (snd (iat_setitem h d k v)) = dcfs h" by (rule iat_setitem_dcfs)
  fix p assume p: "p < length (frames h)"
  show "colnames (fr_table (frames (snd (iat_setitem h d k v)) ! p)) = colnames (fr_table (frames h ! p))"
  proof (cases "iloc_set (fr_table (frames h ! dcf_df (dcfs h ! d))) k (map snd (obj_dict v))")
    case (Inl e)
    then show ?thesis by (simp add: iat_setitem_def Let_def)
  next
    case (Inr it)
    obtain i t where it: "it = (i, t)" by (cases it)
    from iloc_set_colnames[OF Inr[unfolded it]]
    have "colnames (fr_table ((frames h ! dcf_df (dcfs h ! d))\<lparr>fr_table := t\<rparr>))
          = colnames (fr_table (frames h ! dcf_df (dcfs h ! d)))" by simp
    from nth_update_colnames[OF this, of p] p Inr it show ?thesis
      by (simp add: iat_setitem_def Let_def shared_write_colnames)
  qed
qed

lemma at_setitem_heap_ok:
  assumes ok: "heap_ok h"
  shows "heap_ok (snd (at_setitem h d k v))"
proof (rule heap_ok_frames_change[OF ok])
  show "length (frames (snd (at_setitem h d k v))) = length (frames h)"
    by (simp add: at_setitem_def Let_def fold_map_length split: index.splits option.splits)
  show "dcfs (snd (at_setitem h d k v)) = dcfs h" by (rule at_setitem_dcfs)
  fix p assume p: "p < length (frames h)"
  let ?f = "dcf_df (dcfs h ! d)"
  have u: "colnames (fr_table ((frames h)[?f := g'] ! p)) = colnames (fr_table (frames h ! p))"
    if "fr_table g' = loc_set (fr_table (frames h ! ?f)) lab row" for g' lab row
    using nth_update_colnames[of g' "frames h" ?f p] that by (simp add: loc_set_colnames)
  have a: "colnames (fr_table (fold (\<lambda>i. map (shared_write bs r i)) js ((frames h)[?f := g']) ! p))
        = colnames (fr_table ((frames h)[?f := g'] ! p))" for bs r js g'
    using fold_map_keeps[where K = "\<lambda>g. colnames (fr_table g)" and F = "shared_write bs r"
        and fs = "(frames h)[?f := g']" and p = p and js = js] p
    by (simp add: shared_write_colnames)
  show "colnames (fr_table (frames (snd (at_setitem h d k v)) ! p)) = colnames (fr_table (frames h ! p))"
    by (simp add: at_setitem_def Let_def a u split: index.splits option.splits)
qed

lemma cols_setattr_heap_ok:
  assumes ok: "heap_ok h" and d: "d < length (dcfs h)"
  shows "heap_ok (snd (cols_setattr h d n vs))"
proof (cases "n \<in> w_cols (dcf_cols (dcfs h ! d))")
  case False
  with ok show ?thesis by (simp add: cols_setattr_def)
next
  case True
  let ?f = "dcf_df (dcfs h ! w_dcf (dcf_cols (dcfs h ! d)))"
  from heap_okD[OF ok d] True have n: "n \<in> set (colnames (fr_table (frames h ! ?f)))" by blast
  show ?thesis
  proof (rule heap_ok_frames_change[OF ok])
    show "length (frames (snd (cols_setattr h d n vs))) = length (frames h)"
      by (simp add: cols_setattr_def Let_def split: sum.splits)
    show "dcfs (snd (cols_setattr h d n vs)) = dcfs h" by (rule cols_setattr_dcfs)
    fix p assume p: "p < length (frames h)"
    have u: "colnames (fr_table ((frames h)[?f := g'] ! p)) = colnames (fr_table (frames h ! p))"
      if "fr_table g' = set_column (fr_table (frames h ! ?f)) n dt vs" for g' dt
      using nth_update_colnames[of g' "frames h" ?f p] that set_column_colnames[OF n] by simp
    show "colnames (fr_table (frames (snd (cols_setattr h d n vs)) ! p)) = colnames (fr_table (frames h ! p))"
      using True by (simp add: cols_setattr_def Let_def df_setitem_def u)
  qed
qed

lemma copy_heap_ok:
  assumes ok: "heap_ok h" and d: "d < length (dcfs h)"
  shows "heap_ok (snd (copy h d deep))"
proof (cases deep)
  case True
  with ok show ?thesis by (simp add: copy_def)
next
  case False
  note D = heap_okD[OF ok d]
  from D have r: "w_dcf (dcf_cols (dcfs h ! d)) < length (dcfs h)" by blast
  have "heap_ok (h\<lparr>dcfs := dcfs h @ [dcfs h ! d]\<rparr>)"
    using D r by (intro heap_ok_extend[OF ok, where fs = "[]" and ds = "[dcfs h ! d]"])
      (simp_all add: nth_append)
  with False show ?thesis by (simp add: copy_def)
qed

lemma head_heap_ok:
  assumes ok: "heap_ok h" and d: "d < length (dcfs h)"
  shows "heap_ok (snd (head h d n))"
proof -
  note D = heap_okD[OF ok d]
  from D have r: "w_dcf (dcf_cols (dcfs h ! d)) < length (dcfs h)" by blast
  note R = heap_okD[OF ok r]
  have cn: "colnames (df_head t n) = colnames t" for t
    by (simp add: df_head_def colnames_def Let_def)
  have "heap_ok (h\<lparr>frames := frames h @
          [(frames h ! dcf_df (dcfs h ! d))\<lparr>fr_table := df_head (the_frame h d) n\<rparr>],
       dcfs := dcfs h @ [(dcfs h ! d)\<lparr>dcf_df := length (frames h)\<rparr>]\<rparr>)"
    using D R r
    by (intro heap_ok_extend[OF ok, where
          fs = "[(frames h ! dcf_df (dcfs h ! d))\<lparr>fr_table := df_head (the_frame h d) n\<rparr>]"
          and ds = "[(dcfs h ! d)\<lparr>dcf_df := length (frames h)\<rparr>]"])
      (simp_all add: nth_append cn the_frame_def)
  then show ?thesis by (simp add: head_eq[OF d])
qed

lemma private_from_dataframe_heap_ok:
  assumes ok: "heap_ok h" and t: "colnames t = map fst (rc_fields rc)"
  shows "heap_ok (snd (private_from_dataframe pd rc (Some t) idx h))"
proof (cases "private_from_dataframe pd rc (Some t) idx h")
  case (Pair res h')
  show ?thesis
  proof (cases res)
    case (Inl e)
    with Pair have "h' = h"
      by (auto simp: private_from_dataframe_def Let_def split: sum.splits if_splits)
    with Pair ok show ?thesis by simp
  next
    case (Inr s)
    from private_from_dataframe_Some[OF Pair[unfolded Inr]] obtain t1 ib where
      h': "h' = h\<lparr>frames := frames h @
                    [\<lparr>fr_table = t1,
                      fr_bufs = [next_buf h ..< next_buf h + length (df_columns t1)],
                      fr_index_buf = ib\<rparr>],
                  dcfs := dcfs h @ [\<lparr>dcf_record_class = rc, dcf_df = length (frames h),
                                     dcf_index = idx,
                                     dcf_cols = \<lparr>w_dcf = length (dcfs h), w_cols = set (colnames t1)\<rparr>\<rparr>],
                  next_buf := next_buf h + length (df_columns t1)\<rparr>"
      and c: "df_columns t1 = df_columns t"
      by blast
    from c t have ct: "colnames t1 = map fst (rc_fields rc)" by (simp add: colnames_def)
    have "heap_ok h'"
      using ct
      by (intro heap_ok_extend[OF ok, where
            fs = "[\<lparr>fr_table = t1,
                      fr_bufs = [next_buf h ..< next_buf h + length (df_columns t1)],
                      fr_index_buf = ib\<rparr>]"
            and ds = "[\<lparr>dcf_record_class = rc, dcf_df = length (frames h),
                                     dcf_index = idx,
                                     dcf_cols = \<lparr>w_dcf = length (dcfs h), w_cols = set (colnames t1)\<rparr>\<rparr>]"])
        (simp_all add: h' nth_append)
    with Pair show ?thesis by simp
  qed
qed

lemma from_dataframe_heap_ok:
  assumes ok: "heap_ok h" and op: "op_ok (Adopt rc data idx)"
  shows "heap_ok (snd (from_dataframe pd rc data idx h))"
proof (cases data)
  case (Some t)
  with op have "colnames t = map fst (rc_fields rc)" by simp
  from private_from_dataframe_heap_ok[OF ok this] Some show ?thesis
    by (simp add: from_dataframe_def)
next
  case None
  with op have dist: "distinct (map fst (rc_fields rc))" by simp
  show ?thesis
  proof (cases "dataclass_to_empty_dataframe pd rc")
    case (Inl e)
    with None ok show ?thesis by (simp add: from_dataframe_def private_from_dataframe_def)
  next
    case (Inr t)
    from derive_names[OF Inr dist] have "colnames t = map fst (rc_fields rc)"
      by (simp add: colnames_def comp_def case_prod_beta)
    from private_from_dataframe_heap_ok[OF ok this, of pd idx]
    show ?thesis using None Inr
      by (simp add: from_dataframe_def private_from_dataframe_def)
  qed
qed

lemma init_heap_ok:
  assumes ok: "heap_ok h" and op: "op_ok (New rc data idx)"
  shows "heap_ok (snd (DataClassFrame_init pd cast rc data idx h))"
proof (cases "validate_all rc 0 data")
  case (Inl e)
  with ok show ?thesis by (simp add: DataClassFrame_init_def)
next
  case (Inr ds)
  from validate_all_Inr[OF Inr] have ds: "ds = map obj_dict data"
    and inst: "\<forall>dc\<in>set data. isinstance dc rc" by blast+
  from op have dist: "distinct (map fst (rc_fields rc))"
    and conf: "\<forall>dc\<in>set data. \<not> isinstance dc rc \<or> conforms rc dc"
    by (simp_all add: list_all_iff)
  show ?thesis
  proof (cases "length ds < 1")
    case True
    with Inr ok show ?thesis by (simp add: DataClassFrame_init_def)
  next
    case False
    show ?thesis
    proof (cases "dataclass_to_empty_dataframe pd rc")
      case (Inl e)
      with Inr False ok show ?thesis by (simp add: DataClassFrame_init_def)
    next
      case (Inr t)
      from derive_names[OF Inr dist] have t: "colnames t = map fst (rc_fields rc)"
        by (simp add: colnames_def comp_def case_prod_beta)
      have "new_keys (colnames t) ds = []"
      proof (rule new_keys_Nil, rule ballI)
        fix d assume "d \<in> set ds"
        then obtain dc where "dc \<in> set data" "d = obj_dict dc" by (auto simp: ds)
        with inst conf have "map fst d = colnames t" by (auto simp: t conforms_def)
        then show "set (map fst d) \<subseteq> set (colnames t)" by simp
      qed
      then have "colnames (df_append cast t ds) = map fst (rc_fields rc)"
        by (simp add: df_append_colnames t)
      from private_from_dataframe_heap_ok[OF ok this, of pd idx]
      show ?thesis using \<open>validate_all rc 0 data = Inr ds\<close> False Inr
        by (simp add: DataClassFrame_init_def)
    qed
  qed
qed

lemma apply_op_heap_ok: "heap_ok h \<Longrightarrow> op_ok x \<Longrightarrow> heap_ok (apply_op pd cast h x)"
proof (cases x)
  case (New rc data idx)
  assume "heap_ok h" "op_ok x"
  with New init_heap_ok show ?thesis by simp
next
  case (Adopt rc t idx)
  assume "heap_ok h" "op_ok x"
  with Adopt from_dataframe_heap_ok show ?thesis by simp
qed (simp_all add: iat_setitem_heap_ok at_setitem_heap_ok cols_setattr_heap_ok head_heap_ok copy_heap_ok)

lemma run_heap_ok:
  assumes "heap_ok h" and "\<forall>x\<in>set ops. op_ok x"
  shows "heap_ok (run pd cast h ops)"
  using assms unfolding run_def
proof (induction ops arbitrary: h)
  case Nil
  then show ?case by simp
next
  case (Cons x ops)
  from Cons.prems have "heap_ok (apply_op pd cast h x)" by (simp add: apply_op_heap_ok)
  with Cons show ?case by simp
qed

text \<open>
  C5 (amended). From a heap in which every store's columns are the field names of its
  record class, in declaration order, and through any sequence of constructions from
  records that hold exactly the fields of the record class or from a table that has the
  fields as its columns, with or without index, of positional writes, key writes,
  column replacements, heads and copies, whether they return or raise: after every
  prefix of the sequence, every store of the heap has exactly the field names of its
  record class as columns, in that order.
\<close>

theorem columns_invariant:
  assumes "heap_ok h" and "\<forall>x\<in>set ops. op_ok x"
  shows "\<forall>k d. d < length (dcfs (run pd cast h (take k ops))) \<longrightarrow>
           colnames (the_frame (run pd cast h (take k ops)) d) =
             map fst (rc_fields (dcf_record_class (dcfs (run pd cast h (take k ops)) ! d)))"
proof (intro allI impI)
  fix k d
  assume d: "d < length (dcfs (run pd cast h (take k ops)))"
  from assms(2) have "\<forall>x\<in>set (take k ops). op_ok x" by (meson in_set_takeD)
  from run_heap_ok[OF assms(1) this] have "heap_ok (run pd cast h (take k ops))" .
  from heap_okD[OF this d]
  show "colnames (the_frame (run pd cast h (take k ops)) d) =
             map fst (rc_fields (dcf_record_class (dcfs (run pd cast h (take k ops)) ! d)))"
    by (simp add: the_frame_def)
qed

theorem columns_invariant_witness:
  "length (dcfs (run example_dtype example_cast empty_heap example_ops)) = 2 \<and>
   colnames (the_frame (run example_dtype example_cast empty_heap example_ops) 1) = [''id'', ''x''] \<and>
   colnames (the_frame (run example_dtype example_cast empty_heap example_ops) 0) = [''id'', ''x'']"
proof -
  have ok: "heap_ok empty_heap" by (simp add: heap_ok_def empty_heap_def)
  have ops: "\<forall>x\<in>set example_ops. op_ok x"
    by (simp add: example_ops_def Point_def three_points_def isinstance_def conforms_def point_def)
  have r: "run example_dtype example_cast empty_heap example_ops =
     snd (cols_setattr (snd (iat_setitem view_heap 1 0 stranger)) 1 ''x'' [IntV 7, IntV 8, IntV 9])"
    by (simp add: run_def example_ops_def parent_heap_eq(1) view_heap_eq(1) iat_setitem_dcfs)
       (simp add: parent_heap_eq(2) view_heap_eq(2))
  have d: "dcfs (run example_dtype example_cast empty_heap example_ops) = dcfs view_heap"
    by (simp add: r iat_setitem_dcfs cols_setattr_dcfs)
  have l: "length (dcfs (run example_dtype example_cast empty_heap example_ops)) = 2"
    and rc: "map fst (rc_fields (dcf_record_class (dcfs (run example_dtype example_cast empty_heap example_ops) ! 1)))
             = [''id'', ''x'']"
      "map fst (rc_fields (dcf_record_class (dcfs (run example_dtype example_cast empty_heap example_ops) ! 0)))
             = [''id'', ''x'']"
    by (simp_all add: d view_heap_eq(2) parent_heap_eq(2) Point_def)
  note ci = columns_invariant[OF ok ops, of example_dtype example_cast, rule_format,
      where k = "length example_ops", simplified]
  from ci[of 1] ci[of 0] l rc show ?thesis by simp
qed

text \<open>
  C5 as stated fails at construction. \<open>from_dataframe\<close> keeps the table it is handed:
  the store made for \<open>Point\<close> from a table with the one column \<open>k\<close> has that column
  and neither field. And \<open>__init__\<close> checks the class of a record only: the store made
  from a \<open>Point\<close> that was given one more attribute has a third column.
\<close>

theorem columns_invariant_fails:
  "length (dcfs (run example_dtype example_cast empty_heap [Adopt Point (Some other_table) NoIndex])) = 1 \<and>
   dcf_record_class (dcfs (run example_dtype example_cast empty_heap
                              [Adopt Point (Some other_table) NoIndex]) ! 0) = Point \<and>
   colnames (the_frame (run example_dtype example_cast empty_heap
                          [Adopt Point (Some other_table) NoIndex]) 0) = [''k''] \<and>
   isinstance tagged_point Point \<and>
   length (dcfs (run example_dtype example_cast empty_heap [New Point [tagged_point] NoIndex])) = 1 \<and>
   dcf_record_class (dcfs (run example_dtype example_cast empty_heap
                              [New Point [tagged_point] NoIndex]) ! 0) = Point \<and>
   colnames (the_frame (run example_dtype example_cast empty_heap
                          [New Point [tagged_point] NoIndex]) 0) = [''id'', ''x'', ''tag''] \<and>
   map fst (rc_fields Point) = [''id'', ''x'']"
proof -
  have a: "run example_dtype example_cast empty_heap [Adopt Point (Some other_table) NoIndex] =
     \<lparr>frames = [\<lparr>fr_table = \<lparr>df_columns = [(''k'', Int64)], df_index = [[IntV 0]], df_rows = [[IntV 7]]\<rparr>,
                 fr_bufs = [0], fr_index_buf = None\<rparr>],
      dcfs = [\<lparr>dcf_record_class = Point, dcf_df = 0, dcf_index = NoIndex,
               dcf_cols = \<lparr>w_dcf = 0, w_cols = {''k''}\<rparr>\<rparr>],
      next_buf = 1\<rparr>"
    by (simp add: run_def from_dataframe_def private_from_dataframe_def other_table_def
        reset_index_def empty_heap_def colnames_def Let_def)
  have b: "run example_dtype example_cast empty_heap [New Point [tagged_point] NoIndex] =
     \<lparr>frames = [\<lparr>fr_table = \<lparr>df_columns = [(''id'', Object), (''x'', Int64), (''tag'', Object)],
                     df_index = [[IntV 0]],
                     df_rows = [[StrV ''a'', IntV 1, StrV ''t'']]\<rparr>,
                     fr_bufs = [0, 1, 2], fr_index_buf = None\<rparr>],
                  dcfs = [\<lparr>dcf_record_class = Point, dcf_df = 0, dcf_index = NoIndex,
                          dcf_cols = \<lparr>w_dcf = 0, w_cols = {''id'', ''x'', ''tag''}\<rparr>\<rparr>],
                  next_buf = 3\<rparr>"
    by (simp add: run_def eval_init tagged_point_def
      private_from_dataframe_def reset_index_def empty_heap_def Point_def)
  have c: "isinstance tagged_point Point"
    by (simp add: isinstance_def tagged_point_def Point_def)
  show ?thesis
    unfolding a b using c by (simp add: the_frame_def colnames_def) (simp add: Point_def)
qed

end
